theory Spec2Isabelle
  imports Complex_Main "HOL-Library.Sublist"
begin

section \<open>Python values and exceptions\<close>

text \<open>
  The five tools of \<^verbatim>\<open>stock_ticker_agent/agent.py\<close> exchange JSON-shaped Python values:
  the provider responses, the dictionaries handed to \<^verbatim>\<open>ticker_analysis\<close> and the
  envelopes the tools return. A dictionary is an association list in insertion order
  (\<^verbatim>\<open>list(d.keys())\<close> is \<open>map fst\<close>, \<^verbatim>\<open>d[k]\<close> is \<open>map_of\<close>); the keys of a Python
  dictionary are distinct. Strings are lists of ASCII characters.

  A Python \<^verbatim>\<open>float\<close> is an IEEE 754 binary64 value: a finite value is the real number it
  denotes, and there are the two infinities and NaN. The two zeros are one value: they
  differ only in their text and in the sign of a quotient by zero, which Python never
  computes.
\<close>

datatype pyfloat = Finite real | PosInf | NegInf | NaN

datatype pyval =
    PNone
  | PBool bool
  | PInt int
  | PFloat pyfloat
  | PStr string
  | PList "pyval list"
  | PDict "(string \<times> pyval) list"

text \<open>
  What a call can raise. \<open>OtherException\<close> is any further subclass of \<^verbatim>\<open>Exception\<close>, raised
  by a provider library, with its class name and its message. \<^verbatim>\<open>KeyboardInterrupt\<close> and
  \<^verbatim>\<open>SystemExit\<close> derive from \<^verbatim>\<open>BaseException\<close> and not from \<^verbatim>\<open>Exception\<close>: a handler
  \<^verbatim>\<open>except Exception\<close> does not catch them, a bare \<^verbatim>\<open>except:\<close> does.
\<close>

datatype exn =
    KeyError pyval
  | IndexError
  | TypeError
  | ValueError
  | AttributeError
  | ZeroDivisionError
  | OverflowError
  | OtherException string string
  | KeyboardInterrupt
  | SystemExit

fun is_Exception :: "exn \<Rightarrow> bool" where
  "is_Exception KeyboardInterrupt = False"
| "is_Exception SystemExit = False"
| "is_Exception _ = True"

type_synonym 'a result = "exn + 'a"

definition bindE :: "'a result \<Rightarrow> ('a \<Rightarrow> 'b result) \<Rightarrow> 'b result" where
  "bindE m f = (case m of Inl e \<Rightarrow> Inl e | Inr v \<Rightarrow> f v)"

text \<open>\<^verbatim>\<open>try: body  except Exception as e: handler(e)\<close>\<close>

definition try_except :: "'a result \<Rightarrow> (exn \<Rightarrow> 'a result) \<Rightarrow> 'a result" where
  "try_except body handler =
     (case body of
        Inl e \<Rightarrow> (if is_Exception e then handler e else Inl e)
      | Inr v \<Rightarrow> Inr v)"

subsection \<open>Floating-point arithmetic\<close>

text \<open>Rounding to the nearest integer, a tie going to the even neighbour.\<close>

definition round_half_even :: "real \<Rightarrow> int" where
  "round_half_even y =
     (let f = \<lfloor>y\<rfloor>; d = y - of_int f
      in if d < 1 / 2 then f else if 1 / 2 < d then f + 1 else if even f then f else f + 1)"

text \<open>
  The double nearest to a real number, a tie going to the even significand. With \<open>e\<close>
  the binary exponent of \<open>x\<close> (at least \<open>-1022\<close>, below which the doubles are subnormal),
  the doubles around \<open>x\<close> are the multiples of \<open>2 powi (e - 52)\<close>; a result of magnitude
  \<open>2 powi 1024\<close> is beyond the largest double and becomes an infinity.
\<close>

definition round_to_double :: "real \<Rightarrow> pyfloat" where
  "round_to_double x =
     (if x = 0 then Finite 0
      else
        let e = max (- 1022) \<lfloor>log 2 \<bar>x\<bar>\<rfloor>;
            q = 2 powi (e - 52);
            m = of_int (round_half_even (\<bar>x\<bar> / q)) * q
        in if 2 powi 1024 \<le> m then (if 0 < x then PosInf else NegInf)
           else Finite (sgn x * m))"

text \<open>\<^verbatim>\<open>a - b\<close> on floats.\<close>

fun fl_sub :: "pyfloat \<Rightarrow> pyfloat \<Rightarrow> pyfloat" where
  "fl_sub NaN b = NaN"
| "fl_sub a NaN = NaN"
| "fl_sub PosInf PosInf = NaN"
| "fl_sub NegInf NegInf = NaN"
| "fl_sub PosInf b = PosInf"
| "fl_sub NegInf b = NegInf"
| "fl_sub a PosInf = NegInf"
| "fl_sub a NegInf = PosInf"
| "fl_sub (Finite x) (Finite y) = round_to_double (x - y)"

text \<open>\<^verbatim>\<open>a * b\<close> on floats.\<close>

fun fl_mul :: "pyfloat \<Rightarrow> pyfloat \<Rightarrow> pyfloat" where
  "fl_mul NaN b = NaN"
| "fl_mul a NaN = NaN"
| "fl_mul PosInf PosInf = PosInf"
| "fl_mul PosInf NegInf = NegInf"
| "fl_mul NegInf PosInf = NegInf"
| "fl_mul NegInf NegInf = PosInf"
| "fl_mul PosInf (Finite y) = (if y = 0 then NaN else if 0 < y then PosInf else NegInf)"
| "fl_mul NegInf (Finite y) = (if y = 0 then NaN else if 0 < y then NegInf else PosInf)"
| "fl_mul (Finite x) PosInf = (if x = 0 then NaN else if 0 < x then PosInf else NegInf)"
| "fl_mul (Finite x) NegInf = (if x = 0 then NaN else if 0 < x then NegInf else PosInf)"
| "fl_mul (Finite x) (Finite y) = round_to_double (x * y)"

text \<open>The quotient of two floats, for a divisor other than zero.\<close>

fun fl_div :: "pyfloat \<Rightarrow> pyfloat \<Rightarrow> pyfloat" where
  "fl_div NaN b = NaN"
| "fl_div a NaN = NaN"
| "fl_div (Finite x) (Finite y) = round_to_double (x / y)"
| "fl_div PosInf (Finite y) = (if 0 \<le> y then PosInf else NegInf)"
| "fl_div NegInf (Finite y) = (if 0 \<le> y then NegInf else PosInf)"
| "fl_div (Finite x) b = Finite 0"
| "fl_div a b = NaN"

text \<open>\<^verbatim>\<open>a / b\<close> on floats: a divisor equal to zero raises before anything is computed.\<close>

definition py_truediv :: "pyfloat \<Rightarrow> pyfloat \<Rightarrow> pyfloat result" where
  "py_truediv a b = (if b = Finite 0 then Inl ZeroDivisionError else Inr (fl_div a b))"

text \<open>
  The conversion of an integer to a float: the nearest double, or OverflowError when the
  integer is beyond the doubles.
\<close>

definition int_to_float :: "int \<Rightarrow> pyfloat result" where
  "int_to_float i =
     (case round_to_double (of_int i) of
        Finite r \<Rightarrow> Inr (Finite r)
      | _ \<Rightarrow> Inl OverflowError)"

subsection \<open>String methods used by the module\<close>

text \<open>\<^verbatim>\<open>str.lower()\<close> on ASCII text.\<close>

definition lower_char :: "char \<Rightarrow> char" where
  "lower_char c =
     (if (65::nat) \<le> of_char c \<and> of_char c \<le> (90::nat)
      then char_of (of_char c + (32::nat)) else c)"

definition lower :: "string \<Rightarrow> string" where
  "lower s = map lower_char s"

text \<open>
  \<^verbatim>\<open>s.replace(old, "")\<close>: the occurrences of \<open>old\<close> are found from the left, without
  overlap, and removed in a single pass. With an empty \<open>old\<close> and an empty replacement
  the string is unchanged.
\<close>

function str_remove :: "string \<Rightarrow> string \<Rightarrow> string" where
  "str_remove old s =
     (if old = [] \<or> s = [] then s
      else if prefix old s then str_remove old (drop (length old) s)
      else hd s # str_remove old (tl s))"
  by pat_completeness auto
termination
  by (relation "measure (\<lambda>(old, s). length s)") auto

text \<open>\<^verbatim>\<open>str.strip()\<close>: the white space characters of ASCII text.\<close>

definition is_space :: "char \<Rightarrow> bool" where
  "is_space c =
     (((9::nat) \<le> of_char c \<and> of_char c \<le> (13::nat))
      \<or> ((28::nat) \<le> of_char c \<and> of_char c \<le> (32::nat)))"

definition strip :: "string \<Rightarrow> string" where
  "strip s = rev (dropWhile is_space (rev (dropWhile is_space s)))"

text \<open>Line 33: \<^verbatim>\<open>query = query.lower().replace("stock", "").strip()\<close>\<close>

definition clean_query :: "string \<Rightarrow> string" where
  "clean_query query = strip (str_remove ''stock'' (lower query))"

text \<open>\<^verbatim>\<open>sub in s\<close> for two strings.\<close>

fun is_substring :: "string \<Rightarrow> string \<Rightarrow> bool" where
  "is_substring sub [] = (sub = [])"
| "is_substring sub (c # cs) = (prefix sub (c # cs) \<or> is_substring sub cs)"

subsection \<open>Built-in operations on values\<close>

text \<open>Truth value of an object, as \<^verbatim>\<open>if info and ...\<close> tests it.\<close>

fun py_truthy :: "pyval \<Rightarrow> bool" where
  "py_truthy PNone = False"
| "py_truthy (PBool b) = b"
| "py_truthy (PInt i) = (i \<noteq> 0)"
| "py_truthy (PFloat f) = (f \<noteq> Finite 0)"
| "py_truthy (PStr s) = (s \<noteq> [])"
| "py_truthy (PList xs) = (xs \<noteq> [])"
| "py_truthy (PDict kvs) = (kvs \<noteq> [])"

text \<open>
  \<^verbatim>\<open>"k" in x\<close>: a key of a dictionary, an element of a list, a substring of a string;
  any other object is not iterable.
\<close>

fun py_in :: "string \<Rightarrow> pyval \<Rightarrow> bool result" where
  "py_in k (PDict kvs) = Inr (k \<in> set (map fst kvs))"
| "py_in k (PList xs) = Inr (PStr k \<in> set xs)"
| "py_in k (PStr s) = Inr (is_substring k s)"
| "py_in k _ = Inl TypeError"

text \<open>\<^verbatim>\<open>x["k"]\<close>: only a dictionary accepts a string subscript.\<close>

fun getitem :: "pyval \<Rightarrow> string \<Rightarrow> pyval result" where
  "getitem (PDict kvs) k = (case map_of kvs k of Some v \<Rightarrow> Inr v | None \<Rightarrow> Inl (KeyError (PStr k)))"
| "getitem _ k = Inl TypeError"

text \<open>\<^verbatim>\<open>xs[i]\<close> on a list: a negative index counts from the end.\<close>

definition list_index :: "'a list \<Rightarrow> int \<Rightarrow> 'a result" where
  "list_index xs i =
     (let j = (if i < 0 then int (length xs) + i else i)
      in if 0 \<le> j \<and> j < int (length xs) then Inr (xs ! nat j) else Inl IndexError)"

text \<open>\<^verbatim>\<open>x[i]\<close> with an integer subscript.\<close>

fun getindex :: "pyval \<Rightarrow> int \<Rightarrow> pyval result" where
  "getindex (PList xs) i = list_index xs i"
| "getindex (PStr s) i = bindE (list_index s i) (\<lambda>c. Inr (PStr [c]))"
| "getindex (PDict kvs) i = Inl (KeyError (PInt i))"
| "getindex _ i = Inl TypeError"

fun py_len :: "pyval \<Rightarrow> nat result" where
  "py_len (PStr s) = Inr (length s)"
| "py_len (PList xs) = Inr (length xs)"
| "py_len (PDict kvs) = Inr (length kvs)"
| "py_len _ = Inl TypeError"

text \<open>\<^verbatim>\<open>list(x.keys())\<close>: only a dictionary has the method.\<close>

fun dict_keys :: "pyval \<Rightarrow> string list result" where
  "dict_keys (PDict kvs) = Inr (map fst kvs)"
| "dict_keys _ = Inl AttributeError"

text \<open>
  \<^verbatim>\<open>x[:3]\<close>. A list gives its first three elements, a string its first three characters
  (iterated as one-character strings); a dictionary rejects the slice (with a TypeError
  up to Python 3.11), and no other value can reach the slice, which follows \<^verbatim>\<open>len(x) > 0\<close>.
\<close>

fun slice3 :: "pyval \<Rightarrow> pyval list result" where
  "slice3 (PList xs) = Inr (take 3 xs)"
| "slice3 (PStr s) = Inr (map (\<lambda>c. PStr [c]) (take 3 s))"
| "slice3 _ = Inl TypeError"

text \<open>
  \<^verbatim>\<open>change > 0\<close>: numbers compare with \<open>0\<close> (NaN is greater than nothing), anything else
  raises.
\<close>

fun py_gt_zero :: "pyval \<Rightarrow> bool result" where
  "py_gt_zero (PInt i) = Inr (0 < i)"
| "py_gt_zero (PFloat (Finite r)) = Inr (0 < r)"
| "py_gt_zero (PFloat PosInf) = Inr True"
| "py_gt_zero (PFloat f) = Inr False"
| "py_gt_zero (PBool b) = Inr b"
| "py_gt_zero _ = Inl TypeError"

text \<open>\<^verbatim>\<open>abs(x)\<close>: an integer for an integer or a truth value, a float for a float.\<close>

fun py_abs :: "pyval \<Rightarrow> pyval result" where
  "py_abs (PInt i) = Inr (PInt \<bar>i\<bar>)"
| "py_abs (PFloat (Finite r)) = Inr (PFloat (Finite \<bar>r\<bar>))"
| "py_abs (PFloat NegInf) = Inr (PFloat PosInf)"
| "py_abs (PFloat f) = Inr (PFloat f)"
| "py_abs (PBool b) = Inr (PInt (if b then 1 else 0))"
| "py_abs _ = Inl TypeError"

subsection \<open>Formatting with \<^verbatim>\<open>:.2f\<close>\<close>

text \<open>The decimal digit \<open>d\<close>, for \<open>d < 10\<close>.\<close>

definition digit_char :: "nat \<Rightarrow> char" where
  "digit_char d = ''0123456789'' ! d"

fun digits :: "nat \<Rightarrow> string" where
  "digits n = (if n < 10 then [digit_char n] else digits (n div 10) @ [digit_char (n mod 10)])"

text \<open>
  Two decimals of the exact value of a finite double, rounded to the nearest, a tie going
  to the even digit.
\<close>

definition format_2f :: "real \<Rightarrow> string" where
  "format_2f x =
     (let n = nat (round_half_even (\<bar>x\<bar> * 100))
      in (if x < 0 then ''-'' else []) @ digits (n div 100) @ ''.''
           @ [digit_char (n mod 100 div 10), digit_char (n mod 10)])"

text \<open>
  \<^verbatim>\<open>format(x, ".2f")\<close>: a float is formatted as it is, an integer is converted to a
  float first, and the format is not one of a string; nothing else has it.
\<close>

fun float_2f :: "pyfloat \<Rightarrow> string" where
  "float_2f (Finite r) = format_2f r"
| "float_2f PosInf = ''inf''"
| "float_2f NegInf = ''-inf''"
| "float_2f NaN = ''nan''"

fun py_format_2f :: "pyval \<Rightarrow> string result" where
  "py_format_2f (PFloat f) = Inr (float_2f f)"
| "py_format_2f (PInt i) = bindE (int_to_float i) (\<lambda>f. Inr (float_2f f))"
| "py_format_2f (PBool b) = Inr (if b then ''1.00'' else ''0.00'')"
| "py_format_2f (PStr s) = Inl ValueError"
| "py_format_2f _ = Inl TypeError"

text \<open>\<^verbatim>\<open>"\n".join(lines)\<close>\<close>

fun join :: "string \<Rightarrow> string list \<Rightarrow> string" where
  "join sep [] = []"
| "join sep [x] = x"
| "join sep (x # y # ys) = x @ sep @ join sep (y # ys)"

section \<open>The external collaborators\<close>

text \<open>
  Everything the module reaches outside itself is a field of \<open>world\<close>: the environment
  variable read at line 22, the three provider calls, each of which returns a value or
  raises, and the conversions of the Python runtime whose results depend on its version
  or on the text of a number.
  \<^item> \<open>yf_Tickers q\<close> is \<^verbatim>\<open>yf.Tickers(q)\<close>: \<open>None\<close> when the object has no attribute
    \<^verbatim>\<open>tickers\<close>, otherwise the items of \<^verbatim>\<open>tickers.tickers\<close>, each symbol with the outcome
    of reading \<^verbatim>\<open>ticker_obj.info\<close>;
  \<^item> \<open>requests_get_json url\<close> is \<^verbatim>\<open>requests.get(url).json()\<close>;
  \<^item> \<open>newsapi_get_everything q\<close> is the call of lines 82 to 87 with query \<open>q\<close>;
  \<^item> \<open>float_of_str\<close> and \<open>int_of_str\<close> parse the text of a number (\<open>None\<close>: ValueError);
  \<^item> \<open>str_exn\<close> is \<^verbatim>\<open>str(e)\<close> and \<open>str_other\<close> the formatting of a value that is not a
    string inside an f-string.
\<close>

record world =
  ALPHA_VANTAGE_API_KEY :: "string option"
  yf_Tickers :: "string \<Rightarrow> (string \<times> pyval result) list option result"
  requests_get_json :: "string \<Rightarrow> pyval result"
  newsapi_get_everything :: "string \<Rightarrow> pyval result"
  float_of_str :: "string \<Rightarrow> pyfloat option"
  int_of_str :: "string \<Rightarrow> int option"
  str_exn :: "exn \<Rightarrow> string"
  str_other :: "pyval \<Rightarrow> string"

text \<open>A value inside an f-string.\<close>

definition py_str :: "world \<Rightarrow> pyval \<Rightarrow> string" where
  "py_str w v = (case v of PStr s \<Rightarrow> s | _ \<Rightarrow> str_other w v)"

definition api_key_str :: "world \<Rightarrow> string" where
  "api_key_str w = (case ALPHA_VANTAGE_API_KEY w of Some k \<Rightarrow> k | None \<Rightarrow> ''None'')"

text \<open>\<^verbatim>\<open>float(x)\<close>\<close>

fun py_float :: "world \<Rightarrow> pyval \<Rightarrow> pyfloat result" where
  "py_float w (PFloat f) = Inr f"
| "py_float w (PInt i) = int_to_float i"
| "py_float w (PBool b) = Inr (Finite (if b then 1 else 0))"
| "py_float w (PStr s) = (case float_of_str w s of Some f \<Rightarrow> Inr f | None \<Rightarrow> Inl ValueError)"
| "py_float w _ = Inl TypeError"

text \<open>
  \<^verbatim>\<open>int(x)\<close>: a finite float is truncated towards zero, an infinity raises OverflowError
  and NaN raises ValueError.
\<close>

fun py_int :: "world \<Rightarrow> pyval \<Rightarrow> int result" where
  "py_int w (PInt i) = Inr i"
| "py_int w (PFloat (Finite r)) = Inr (if 0 \<le> r then \<lfloor>r\<rfloor> else \<lceil>r\<rceil>)"
| "py_int w (PFloat NaN) = Inl ValueError"
| "py_int w (PFloat f) = Inl OverflowError"
| "py_int w (PBool b) = Inr (if b then 1 else 0)"
| "py_int w (PStr s) = (case int_of_str w s of Some i \<Rightarrow> Inr i | None \<Rightarrow> Inl ValueError)"
| "py_int w _ = Inl TypeError"

section \<open>The ToolResult envelope\<close>

definition success_result :: "pyval \<Rightarrow> pyval" where
  "success_result d = PDict [(''status'', PStr ''success''), (''data'', d)]"

definition error_result :: "string \<Rightarrow> pyval" where
  "error_result msg = PDict [(''status'', PStr ''error''), (''error_message'', PStr msg)]"

text \<open>
  The two shapes of the envelope: the keys are exactly \<^verbatim>\<open>status\<close> and the payload of the
  variant.
\<close>

definition is_success :: "pyval \<Rightarrow> bool" where
  "is_success r =
     (case r of
        PDict kvs \<Rightarrow>
          distinct (map fst kvs) \<and> set (map fst kvs) = {''status'', ''data''}
          \<and> map_of kvs ''status'' = Some (PStr ''success'')
      | _ \<Rightarrow> False)"

definition is_error :: "pyval \<Rightarrow> bool" where
  "is_error r =
     (case r of
        PDict kvs \<Rightarrow>
          distinct (map fst kvs) \<and> set (map fst kvs) = {''status'', ''error_message''}
          \<and> map_of kvs ''status'' = Some (PStr ''error'')
          \<and> (case map_of kvs ''error_message'' of Some (PStr m) \<Rightarrow> True | _ \<Rightarrow> False)
      | _ \<Rightarrow> False)"

text \<open>A well-formed envelope: exactly one of the two shapes.\<close>

definition is_tool_result :: "pyval \<Rightarrow> bool" where
  "is_tool_result r = ((is_success r \<and> \<not> is_error r) \<or> (is_error r \<and> \<not> is_success r))"


section \<open>The five tools\<close>

subsection \<open>\<^verbatim>\<open>identify_ticker\<close> (lines 26 to 75)\<close>

text \<open>
  Lines 38 to 50, the loop over the candidates of the ticker search. A candidate whose
  \<^verbatim>\<open>info\<close> cannot be read, or whose test or subscript raises, is skipped by the bare
  \<^verbatim>\<open>except: continue\<close>; the first candidate with a \<^verbatim>\<open>longName\<close> ends the function.
\<close>

definition candidate_result :: "string \<Rightarrow> pyval result \<Rightarrow> pyval option result" where
  "candidate_result symbol info_r =
     bindE info_r (\<lambda>info.
       if py_truthy info then
         bindE (py_in ''longName'' info) (\<lambda>has.
           if has then
             bindE (getitem info ''longName'') (\<lambda>long_name.
               Inr (Some (success_result
                 (PDict [(''ticker'', PStr symbol), (''company_name'', long_name)]))))
           else Inr None)
       else Inr None)"

fun scan_candidates :: "(string \<times> pyval result) list \<Rightarrow> pyval option" where
  "scan_candidates [] = None"
| "scan_candidates ((symbol, info_r) # rest) =
     (case candidate_result symbol info_r of
        Inr (Some r) \<Rightarrow> Some r
      | _ \<Rightarrow> scan_candidates rest)"

text \<open>Lines 53 to 70, the fallback on the symbol search of Alpha Vantage.\<close>


definition search_url :: "world \<Rightarrow> string \<Rightarrow> string" where
  "search_url w query =
     ''https://www.alphavantage.co/query?function=SYMBOL_SEARCH&keywords='' @ query
       @ ''&apikey='' @ api_key_str w"

definition symbol_search :: "world \<Rightarrow> string \<Rightarrow> pyval result" where
  "symbol_search w query =
     (bindE (requests_get_json w (search_url w query)) (\<lambda>data.
         bindE (py_in ''bestMatches'' data) (\<lambda>has.
         bindE (if has
                then bindE (getitem data ''bestMatches'') (\<lambda>bm.
                     bindE (py_len bm) (\<lambda>n. Inr (0 < n)))
                else Inr False) (\<lambda>found.
           if found then
             bindE (getitem data ''bestMatches'') (\<lambda>bm.
             bindE (getindex bm 0) (\<lambda>match.
             bindE (getitem match ''1. symbol'') (\<lambda>sym.
             bindE (getitem match ''2. name'') (\<lambda>name.
               Inr (success_result (PDict [(''ticker'', sym), (''company_name'', name)]))))))
           else Inr (error_result ''Could not find matching ticker symbol'')))))"

definition identify_ticker_body :: "world \<Rightarrow> string \<Rightarrow> pyval result" where
  "identify_ticker_body w query0 =
     (let query = clean_query query0
      in bindE (yf_Tickers w query) (\<lambda>tickers.
           case (case tickers of Some items \<Rightarrow> scan_candidates items | None \<Rightarrow> None) of
             Some r \<Rightarrow> Inr r
           | None \<Rightarrow> symbol_search w query))"

definition identify_ticker :: "world \<Rightarrow> string \<Rightarrow> pyval result" where
  "identify_ticker w query =
     try_except (identify_ticker_body w query)
       (\<lambda>e. Inr (error_result (''Error in ticker identification: '' @ str_exn w e)))"

subsection \<open>\<^verbatim>\<open>ticker_news\<close> (lines 77 to 96)\<close>

definition ticker_news_body :: "world \<Rightarrow> string \<Rightarrow> pyval result" where
  "ticker_news_body w ticker =
     bindE (newsapi_get_everything w (ticker @ '' stock'')) (\<lambda>news.
     bindE (getitem news ''articles'') (\<lambda>articles.
       Inr (success_result articles)))"

definition ticker_news :: "world \<Rightarrow> string \<Rightarrow> pyval result" where
  "ticker_news w ticker =
     try_except (ticker_news_body w ticker)
       (\<lambda>e. Inr (error_result (''Error fetching news: '' @ str_exn w e)))"

subsection \<open>\<^verbatim>\<open>ticker_price\<close> (lines 98 to 126)\<close>

text \<open>Line 103.\<close>

definition quote_url :: "world \<Rightarrow> string \<Rightarrow> string" where
  "quote_url w ticker =
     ''https://www.alphavantage.co/query?function=GLOBAL_QUOTE&symbol='' @ ticker
       @ ''&apikey='' @ api_key_str w"

definition ticker_price_body :: "world \<Rightarrow> string \<Rightarrow> pyval result" where
  "ticker_price_body w ticker =
     (bindE (requests_get_json w (quote_url w ticker)) (\<lambda>data.
         bindE (py_in ''Global Quote'' data) (\<lambda>has.
           if has then
             bindE (getitem data ''Global Quote'') (\<lambda>quote.
             bindE (getitem quote ''05. price'') (\<lambda>p.
             bindE (py_float w p) (\<lambda>price.
             bindE (getitem quote ''06. volume'') (\<lambda>v.
             bindE (py_int w v) (\<lambda>volume.
             bindE (getitem quote ''07. latest trading day'') (\<lambda>trading_day.
             bindE (getitem quote ''08. previous close'') (\<lambda>c.
             bindE (py_float w c) (\<lambda>previous_close.
               Inr (success_result (PDict
                 [(''price'', PFloat price),
                  (''volume'', PInt volume),
                  (''trading_day'', trading_day),
                  (''previous_close'', PFloat previous_close)]))))))))))
           else Inr (error_result ''No price data available''))))"

definition ticker_price :: "world \<Rightarrow> string \<Rightarrow> pyval result" where
  "ticker_price w ticker =
     try_except (ticker_price_body w ticker)
       (\<lambda>e. Inr (error_result (''Error fetching price: '' @ str_exn w e)))"

subsection \<open>\<^verbatim>\<open>ticker_price_change\<close> (lines 128 to 174)\<close>

text \<open>Lines 141 to 149: the start and the end date of the window.\<close>

definition select_dates :: "string \<Rightarrow> string list \<Rightarrow> (string \<times> string) result" where
  "select_dates timeframe dates =
     (if timeframe = ''today'' then
        bindE (list_index dates 1) (\<lambda>start_date.
        bindE (list_index dates 0) (\<lambda>end_date. Inr (start_date, end_date)))
      else if timeframe = ''week'' then
        bindE (list_index dates (min 7 (int (length dates) - 1))) (\<lambda>start_date.
        bindE (list_index dates 0) (\<lambda>end_date. Inr (start_date, end_date)))
      else
        bindE (list_index dates (min 30 (int (length dates) - 1))) (\<lambda>start_date.
        bindE (list_index dates 0) (\<lambda>end_date. Inr (start_date, end_date))))"

text \<open>
  Line 153, \<^verbatim>\<open>((end_price - start_price) / start_price) * 100\<close>, in float arithmetic; the
  division raises when the start price is zero.
\<close>

definition percent_change :: "pyfloat \<Rightarrow> pyfloat \<Rightarrow> pyfloat result" where
  "percent_change start_price end_price =
     bindE (py_truediv (fl_sub end_price start_price) start_price) (\<lambda>quotient.
       Inr (fl_mul quotient (Finite 100)))"

text \<open>Lines 155 to 165.\<close>

definition change_result ::
  "string \<Rightarrow> string \<Rightarrow> pyfloat \<Rightarrow> pyfloat \<Rightarrow> pyfloat \<Rightarrow> string \<Rightarrow> pyval" where
  "change_result start_date end_date start_price end_price change timeframe =
     success_result (PDict
       [(''start_date'', PStr start_date),
        (''end_date'', PStr end_date),
        (''start_price'', PFloat start_price),
        (''end_price'', PFloat end_price),
        (''percent_change'', PFloat change),
        (''timeframe'', PStr timeframe)])"

text \<open>Lines 151 and 152: \<^verbatim>\<open>float(time_series[date]["4. close"])\<close>\<close>

definition close_price :: "world \<Rightarrow> pyval \<Rightarrow> string \<Rightarrow> pyfloat result" where
  "close_price w time_series date =
     bindE (getitem time_series date) (\<lambda>entry.
     bindE (getitem entry ''4. close'') (\<lambda>c. py_float w c))"

text \<open>Lines 151 to 165: the change between the closing prices of two dates.\<close>

definition change_between ::
  "world \<Rightarrow> pyval \<Rightarrow> string \<Rightarrow> string \<Rightarrow> string \<Rightarrow> pyval result" where
  "change_between w time_series start_date end_date timeframe =
     bindE (close_price w time_series start_date) (\<lambda>start_price.
     bindE (close_price w time_series end_date) (\<lambda>end_price.
     bindE (percent_change start_price end_price) (\<lambda>change.
       Inr (change_result start_date end_date start_price end_price change timeframe))))"

text \<open>Line 133.\<close>

definition daily_url :: "world \<Rightarrow> string \<Rightarrow> string" where
  "daily_url w ticker =
     ''https://www.alphavantage.co/query?function=TIME_SERIES_DAILY&symbol='' @ ticker
       @ ''&apikey='' @ api_key_str w"

definition ticker_price_change_body :: "world \<Rightarrow> string \<Rightarrow> string \<Rightarrow> pyval result" where
  "ticker_price_change_body w ticker timeframe =
     (bindE (requests_get_json w (daily_url w ticker)) (\<lambda>data.
         bindE (py_in ''Time Series (Daily)'' data) (\<lambda>has.
           if has then
             bindE (getitem data ''Time Series (Daily)'') (\<lambda>time_series.
             bindE (dict_keys time_series) (\<lambda>dates.
             bindE (select_dates timeframe dates) (\<lambda>(start_date, end_date).
               change_between w time_series start_date end_date timeframe)))
           else Inr (error_result ''No historical data available''))))"

text \<open>Lines 170 to 174.\<close>

definition price_change_handler :: "world \<Rightarrow> exn \<Rightarrow> pyval result" where
  "price_change_handler w e =
     Inr (error_result (''Error calculating price change: '' @ str_exn w e))"

definition ticker_price_change :: "world \<Rightarrow> string \<Rightarrow> string \<Rightarrow> pyval result" where
  "ticker_price_change w ticker timeframe =
     try_except (ticker_price_change_body w ticker timeframe) (price_change_handler w)"

subsection \<open>\<^verbatim>\<open>ticker_analysis\<close> (lines 176 to 210)\<close>

text \<open>Lines 184 to 192: the lines the price data contributes.\<close>

definition price_lines :: "world \<Rightarrow> pyval \<Rightarrow> string list result" where
  "price_lines w price_data =
     bindE (getitem price_data ''status'') (\<lambda>status.
       if status = PStr ''success'' then
         bindE (getitem price_data ''data'') (\<lambda>price_info.
         bindE (getitem price_info ''percent_change'') (\<lambda>change.
         bindE (getitem price_info ''timeframe'') (\<lambda>timeframe.
         bindE (py_gt_zero change) (\<lambda>positive.
           if positive then
             bindE (py_abs change) (\<lambda>a.
             bindE (py_format_2f a) (\<lambda>amount.
               Inr [''The stock has increased by '' @ amount @ ''% over ''
                      @ py_str w timeframe @ ''.'']))
           else
             bindE (py_abs change) (\<lambda>a.
             bindE (py_format_2f a) (\<lambda>amount.
               Inr [''The stock has decreased by '' @ amount @ ''% over ''
                      @ py_str w timeframe @ ''.'']))))))
       else Inr [])"

text \<open>Line 196: the header, which starts with a line break.\<close>

definition news_header :: string where
  "news_header = CHR 0x0A # ''Recent news that might explain the movement:''"

text \<open>Line 198, for each article of the slice, in order; the first failure ends the loop.\<close>

fun bullet_lines :: "world \<Rightarrow> pyval list \<Rightarrow> string list result" where
  "bullet_lines w [] = Inr []"
| "bullet_lines w (article # rest) =
     bindE (getitem article ''title'') (\<lambda>title.
     bindE (bullet_lines w rest) (\<lambda>ls. Inr ((''- '' @ py_str w title) # ls)))"

text \<open>Lines 195 to 198: the lines the news data contributes.\<close>

definition news_lines :: "world \<Rightarrow> pyval \<Rightarrow> string list result" where
  "news_lines w news_data =
     bindE (getitem news_data ''status'') (\<lambda>status.
     bindE (if status = PStr ''success''
            then bindE (getitem news_data ''data'') (\<lambda>d.
                 bindE (py_len d) (\<lambda>n. Inr (0 < n)))
            else Inr False) (\<lambda>some_news.
       if some_news then
         bindE (getitem news_data ''data'') (\<lambda>d.
         bindE (slice3 d) (\<lambda>articles.
         bindE (bullet_lines w articles) (\<lambda>ls. Inr (news_header # ls))))
       else Inr []))"

definition analysis_result :: "string list \<Rightarrow> pyval" where
  "analysis_result analysis =
     success_result (PDict [(''analysis'', PStr (join [CHR 0x0A] analysis))])"

definition ticker_analysis_body :: "world \<Rightarrow> string \<Rightarrow> pyval \<Rightarrow> pyval \<Rightarrow> pyval result" where
  "ticker_analysis_body w ticker news_data price_data =
     bindE (price_lines w price_data) (\<lambda>pl.
     bindE (news_lines w news_data) (\<lambda>nl.
       Inr (analysis_result (pl @ nl))))"

definition ticker_analysis :: "world \<Rightarrow> string \<Rightarrow> pyval \<Rightarrow> pyval \<Rightarrow> pyval result" where
  "ticker_analysis w ticker news_data price_data =
     try_except (ticker_analysis_body w ticker news_data price_data)
       (\<lambda>e. Inr (error_result (''Error in analysis: '' @ str_exn w e)))"

section \<open>Example collaborators\<close>

text \<open>
  Concrete worlds for the examples below. \<open>exn_text\<close> gives the messages of CPython 3 for
  the exceptions the examples meet; \<open>world_of_response data\<close> answers every HTTP request
  with the JSON value \<open>data\<close>, and \<open>world_raising e\<close> raises \<open>e\<close> in every provider call.
\<close>

fun exn_text :: "exn \<Rightarrow> string" where
  "exn_text IndexError = ''list index out of range''"
| "exn_text ZeroDivisionError = ''float division by zero''"
| "exn_text OverflowError = ''int too large to convert to float''"
| "exn_text (KeyError (PStr k)) = [CHR 0x27] @ k @ [CHR 0x27]"
| "exn_text (OtherException cls msg) = msg"
| "exn_text _ = ''error''"

definition world_of_response :: "pyval \<Rightarrow> world" where
  "world_of_response data =
     \<lparr>ALPHA_VANTAGE_API_KEY = Some ''demo'',
      yf_Tickers = (\<lambda>q. Inr (Some [])),
      requests_get_json = (\<lambda>url. Inr data),
      newsapi_get_everything = (\<lambda>q. Inr (PDict [(''articles'', PList [])])),
      float_of_str = (\<lambda>s. None),
      int_of_str = (\<lambda>s. None),
      str_exn = exn_text,
      str_other = (\<lambda>v. ''?'')\<rparr>"

definition world_raising :: "exn \<Rightarrow> world" where
  "world_raising e =
     \<lparr>ALPHA_VANTAGE_API_KEY = None,
      yf_Tickers = (\<lambda>q. Inl e),
      requests_get_json = (\<lambda>url. Inl e),
      newsapi_get_everything = (\<lambda>q. Inl e),
      float_of_str = (\<lambda>s. None),
      int_of_str = (\<lambda>s. None),
      str_exn = exn_text,
      str_other = (\<lambda>v. ''?'')\<rparr>"

text \<open>A daily series: the dates, most recent first, each with its closing price.\<close>

definition daily_series :: "(string \<times> real) list \<Rightarrow> pyval" where
  "daily_series closes =
     PDict [(''Time Series (Daily)'',
             PDict (map (\<lambda>(d, c). (d, PDict [(''4. close'', PFloat (Finite c))])) closes))]"

section \<open>Properties of the query cleaning\<close>

declare str_remove.simps [simp del]

lemma lower_char_idem: "lower_char (lower_char c) = lower_char c"
  by (simp add: lower_char_def)

lemma lower_idem: "lower (lower s) = lower s"
  by (simp add: lower_def lower_char_idem)

lemma str_remove_Nil: "str_remove old [] = []"
  by (simp add: str_remove.simps)

lemma is_substring_prefix: "prefix sub s \<Longrightarrow> is_substring sub s"
  by (cases s) auto

lemma str_remove_absent: "\<not> is_substring old s \<Longrightarrow> str_remove old s = s"
proof (induction s)
  case Nil
  then show ?case by (simp add: str_remove.simps)
next
  case (Cons c cs)
  then show ?case by (subst str_remove.simps) auto
qed

lemma set_str_remove: "set (str_remove old s) \<subseteq> set s"
proof (induction old s rule: str_remove.induct)
  case (1 old s)
  show ?case
  proof (cases "old = [] \<or> s = []")
    case True
    then show ?thesis by (subst str_remove.simps) simp
  next
    case False
    show ?thesis
    proof (cases "prefix old s")
      case True
      with False 1(1) have "set (str_remove old (drop (length old) s)) \<subseteq> set (drop (length old) s)"
        by simp
      also have "\<dots> \<subseteq> set s" by (rule set_drop_subset)
      finally show ?thesis using False True by (subst str_remove.simps) simp
    next
      case np: False
      with False 1(2) have "set (str_remove old (tl s)) \<subseteq> set (tl s)" by simp
      moreover have "set s = insert (hd s) (set (tl s))" using False by (cases s) auto
      ultimately show ?thesis using False np by (subst str_remove.simps) auto
    qed
  qed
qed

lemma length_str_remove: "length (str_remove old s) \<le> length s"
proof (induction old s rule: str_remove.induct)
  case (1 old s)
  show ?case
  proof (cases "old = [] \<or> s = []")
    case True
    then show ?thesis by (subst str_remove.simps) simp
  next
    case False
    show ?thesis
    proof (cases "prefix old s")
      case True
      with False 1(1) have "length (str_remove old (drop (length old) s)) \<le> length (drop (length old) s)"
        by simp
      then show ?thesis using False True by (subst str_remove.simps) simp
    next
      case np: False
      with False 1(2) have "length (str_remove old (tl s)) \<le> length (tl s)" by simp
      moreover obtain c cs where "s = c # cs" using False by (cases s) auto
      ultimately show ?thesis using False np by (subst str_remove.simps) auto
    qed
  qed
qed

lemma length_str_remove_less:
  "old \<noteq> [] \<Longrightarrow> is_substring old s \<Longrightarrow> length (str_remove old s) < length s"
proof (induction s)
  case Nil
  then show ?case by simp
next
  case (Cons c cs)
  show ?case
  proof (cases "prefix old (c # cs)")
    case True
    have "length (str_remove old (drop (length old) (c # cs))) \<le> length (drop (length old) (c # cs))"
      by (rule length_str_remove)
    moreover have "0 < length old" using Cons.prems(1) by simp
    then have "length (drop (length old) (c # cs)) < length (c # cs)"
      by simp
    ultimately have "length (str_remove old (drop (length old) (c # cs))) < length (c # cs)"
      by (rule le_less_trans)
    then show ?thesis using True Cons.prems(1)
      by (subst str_remove.simps) simp
  next
    case False
    with Cons.prems have "is_substring old cs" by simp
    with Cons.IH Cons.prems(1) have "length (str_remove old cs) < length cs" by simp
    then show ?thesis using False Cons.prems(1) by (subst str_remove.simps) simp
  qed
qed

lemma dropWhile_idem: "dropWhile P (dropWhile P xs) = dropWhile P xs"
  by (induction xs) auto

lemma dropWhile_fixed: "xs = [] \<or> \<not> P (hd xs) \<Longrightarrow> dropWhile P xs = xs"
  by (cases xs) auto

lemma strip_idem: "strip (strip s) = strip s"
proof -
  let ?a = "dropWhile is_space s"
  let ?b = "dropWhile is_space (rev ?a)"
  have a_eq: "?a = rev ?b @ rev (takeWhile is_space (rev ?a))"
    by (metis rev_append rev_rev_ident takeWhile_dropWhile_id)
  have "rev ?b = [] \<or> \<not> is_space (hd (rev ?b))"
  proof (cases "rev ?b = []")
    case True
    then show ?thesis by (rule disjI1)
  next
    case False
    then have hd_eq: "hd (rev ?b) = hd ?a" by (metis a_eq hd_append2)
    have "?a \<noteq> []" using False a_eq by (metis append_is_Nil_conv)
    then have "\<not> is_space (hd ?a)" by (rule hd_dropWhile)
    then have "\<not> is_space (hd (rev ?b))" unfolding hd_eq .
    then show ?thesis by (rule disjI2)
  qed
  then have 1: "dropWhile is_space (rev ?b) = rev ?b"
    by (rule dropWhile_fixed)
  have 2: "dropWhile is_space ?b = ?b" by (rule dropWhile_idem)
  show ?thesis
    unfolding strip_def by (simp only: 1 rev_rev_ident 2)
qed

lemma set_strip: "set (strip s) \<subseteq> set s"
proof -
  have "set (strip s) = set (dropWhile is_space (rev (dropWhile is_space s)))"
    by (simp add: strip_def)
  also have "\<dots> \<subseteq> set (rev (dropWhile is_space s))" by (rule set_dropWhileD [THEN subsetI])
  also have "\<dots> \<subseteq> set s" using set_dropWhileD [of _ is_space s] by auto
  finally show ?thesis .
qed

lemma length_strip: "length (strip s) \<le> length s"
proof -
  have "length (strip s) = length (dropWhile is_space (rev (dropWhile is_space s)))"
    by (simp only: strip_def length_rev)
  also have "\<dots> \<le> length (rev (dropWhile is_space s))" by (rule length_dropWhile_le)
  also have "\<dots> = length (dropWhile is_space s)" by (rule length_rev)
  also have "\<dots> \<le> length s" by (rule length_dropWhile_le)
  finally show ?thesis .
qed

lemma lower_fixed: "\<forall>c \<in> set s. lower_char c = c \<Longrightarrow> lower s = s"
  by (simp add: lower_def map_idI)

lemma lower_clean_query: "lower (clean_query q) = clean_query q"
proof (rule lower_fixed, rule ballI)
  fix c assume "c \<in> set (clean_query q)"
  then have "c \<in> set (lower q)"
    unfolding clean_query_def using set_strip set_str_remove by blast
  then obtain d where "c = lower_char d" by (auto simp: lower_def)
  then show "lower_char c = c" by (simp add: lower_char_idem)
qed

lemma strip_clean_query: "strip (clean_query q) = clean_query q"
  by (simp add: clean_query_def strip_idem)

text \<open>
  C6, as stated, fails: \<^verbatim>\<open>replace\<close> removes the occurrences of \<^verbatim>\<open>stock\<close> in one pass, and
  removing one can join the text around it into a new occurrence. The query
  \<^verbatim>\<open>ststockock\<close> is cleaned to \<^verbatim>\<open>stock\<close>, which is cleaned to the empty string.
\<close>

theorem clean_query_not_idempotent:
  "clean_query (clean_query ''ststockock'') \<noteq> clean_query ''ststockock''"
  by code_simp

text \<open>
  C6, amended: cleaning an already cleaned query gives the same string exactly when the
  cleaned query does not contain \<^verbatim>\<open>stock\<close>; the lower-casing and the stripping of white
  space are idempotent on every query.
\<close>

theorem clean_query_idempotent_iff:
  "(clean_query (clean_query q) = clean_query q
      \<longleftrightarrow> \<not> is_substring ''stock'' (clean_query q))
   \<and> lower (clean_query q) = clean_query q
   \<and> strip (clean_query q) = clean_query q"
proof (intro conjI iffI)
  assume eq: "clean_query (clean_query q) = clean_query q"
  show "\<not> is_substring ''stock'' (clean_query q)"
  proof
    assume "is_substring ''stock'' (clean_query q)"
    then have "length (str_remove ''stock'' (clean_query q)) < length (clean_query q)"
      by (intro length_str_remove_less) simp_all
    moreover have "clean_query (clean_query q) = strip (str_remove ''stock'' (clean_query q))"
      by (simp add: clean_query_def [of "clean_query q"] lower_clean_query)
    ultimately have "length (clean_query (clean_query q)) < length (clean_query q)"
      using length_strip [of "str_remove ''stock'' (clean_query q)"] by simp
    with eq show False by simp
  qed
next
  assume "\<not> is_substring ''stock'' (clean_query q)"
  then have "str_remove ''stock'' (clean_query q) = clean_query q"
    by (rule str_remove_absent)
  then show "clean_query (clean_query q) = clean_query q"
    by (simp add: clean_query_def [of "clean_query q"] lower_clean_query strip_clean_query)
next
  show "lower (clean_query q) = clean_query q" by (rule lower_clean_query)
next
  show "strip (clean_query q) = clean_query q" by (rule strip_clean_query)
qed

theorem clean_query_idempotent_witness:
  "clean_query ''Tesla stock'' = ''tesla''
   \<and> clean_query (clean_query ''Tesla stock'') = clean_query ''Tesla stock''"
proof -
  have c: "clean_query ''Tesla stock'' = ''tesla''" by code_simp
  have "\<not> is_substring ''stock'' (clean_query ''Tesla stock'')"
    unfolding c by simp
  with clean_query_idempotent_iff [of "''Tesla stock''"] c show ?thesis by blast
qed

section \<open>Results and exceptions\<close>

lemma bindE_Inr [simp]: "bindE (Inr v) f = f v"
  by (simp add: bindE_def)

lemma bindE_Inl [simp]: "bindE (Inl e) f = Inl e"
  by (simp add: bindE_def)

lemma bindE_eq_Inr: "bindE m f = Inr r \<longleftrightarrow> (\<exists>v. m = Inr v \<and> f v = Inr r)"
  by (cases m) simp_all

lemma bindE_eq_Inl: "bindE m f = Inl e \<longleftrightarrow> m = Inl e \<or> (\<exists>v. m = Inr v \<and> f v = Inl e)"
  by (cases m) simp_all

lemma try_except_Inr [simp]: "try_except (Inr v) h = Inr v"
  by (simp add: try_except_def)

lemma try_except_Inl [simp]: "try_except (Inl e) h = (if is_Exception e then h e else Inl e)"
  by (simp add: try_except_def)

lemma getitem_Inr_iff: "getitem d k = Inr v \<longleftrightarrow> (\<exists>kvs. d = PDict kvs \<and> map_of kvs k = Some v)"
  by (cases d) (auto split: option.splits)

lemma getitem_py_in:
  assumes "getitem d k = Inr v"
  shows "py_in k d = Inr True"
proof -
  from assms obtain kvs where d: "d = PDict kvs" and "map_of kvs k = Some v"
    by (auto simp: getitem_Inr_iff)
  then have "k \<in> fst ` set kvs"
    using map_of_eq_None_iff [of kvs k] by auto
  then show ?thesis by (simp add: d)
qed

lemma list_index_0: "xs \<noteq> [] \<Longrightarrow> list_index xs 0 = Inr (xs ! 0)"
  by (simp add: list_index_def)

lemma list_index_nat: "n < length xs \<Longrightarrow> list_index xs (int n) = Inr (xs ! n)"
  by (simp add: list_index_def)

lemma list_index_clamp:
  "xs \<noteq> [] \<Longrightarrow> list_index xs (min (int n) (int (length xs) - 1)) = Inr (xs ! min n (length xs - 1))"
proof -
  assume ne: "xs \<noteq> []"
  then have "min (int n) (int (length xs) - 1) = int (min n (length xs - 1))"
    by (cases xs) auto
  moreover have "min n (length xs - 1) < length xs" using ne by (cases xs) auto
  ultimately show ?thesis by (simp only: list_index_nat)
qed

section \<open>Rounding to a double\<close>

lemma floor_log2_eq:
  assumes "2 powi e \<le> x" and "x < 2 powi (e + 1)"
  shows "\<lfloor>log 2 x\<rfloor> = e"
proof -
  have pos: "0 < x" using assms(1) by (smt (verit) zero_less_power_int)
  have "real_of_int e \<le> log 2 x"
    using assms(1) pos by (simp add: le_log_iff powr_real_of_int')
  moreover have "x < 2 powr real_of_int (e + 1)"
    using assms(2) by (subst powr_real_of_int') simp_all
  then have "log 2 x < real_of_int (e + 1)"
    using pos by (subst log_less_iff) simp_all
  ultimately show ?thesis by (simp add: floor_eq_iff)
qed

lemma round_to_double_normal:
  assumes "2 powi e \<le> \<bar>x\<bar>" and "\<bar>x\<bar> < 2 powi (e + 1)" and "- 1022 \<le> e"
    and "m = of_int (round_half_even (\<bar>x\<bar> / 2 powi (e - 52))) * 2 powi (e - 52)"
    and "m < 2 powi 1024"
  shows "round_to_double x = Finite (sgn x * m)"
proof -
  have "x \<noteq> 0" using assms(1) by (smt (verit) zero_less_power_int abs_zero)
  moreover have "\<lfloor>log 2 \<bar>x\<bar>\<rfloor> = e" using assms(1,2) by (rule floor_log2_eq)
  ultimately show ?thesis using assms(3,4,5)
    by (simp add: round_to_double_def Let_def max_def)
qed

text \<open>The arithmetic of the example of the specification: closes 110 and 100.\<close>

lemma sub_110_100: "fl_sub (Finite 110) (Finite 100) = Finite 10"
  using round_to_double_normal [of 3 10 10]
  by (simp add: round_half_even_def power_int_minus)

lemma div_10_100:
  "fl_div (Finite 10) (Finite 100) = Finite (3602879701896397 / 36028797018963968)"
  using round_to_double_normal [of "-4" "10 / 100" "3602879701896397 / 36028797018963968"]
  by (simp add: round_half_even_def power_int_minus)

lemma mul_tenth_100:
  "fl_mul (Finite (3602879701896397 / 36028797018963968)) (Finite 100) = Finite 10"
  using round_to_double_normal [of 3 "3602879701896397 / 36028797018963968 * 100" 10]
  by (simp add: round_half_even_def power_int_minus)

lemma percent_change_100_110: "percent_change (Finite 100) (Finite 110) = Inr (Finite 10)"
  by (simp add: percent_change_def py_truediv_def sub_110_100 div_10_100 mul_tenth_100
      del: fl_sub.simps fl_div.simps fl_mul.simps)

text \<open>An integer beyond the doubles is not converted: \<^verbatim>\<open>float(2 ** 1024)\<close> raises.\<close>

lemma round_to_double_overflow:
  assumes "2 powi e \<le> x" and "x < 2 powi (e + 1)" and "- 1022 \<le> e"
    and "(2::real) powi 1024
           \<le> real_of_int (round_half_even (x / 2 powi (e - 52))) * 2 powi (e - 52)"
  shows "round_to_double x = PosInf"
proof -
  have pos: "0 < x" using assms(1) by (smt (verit) zero_less_power_int)
  moreover have "\<lfloor>log 2 \<bar>x\<bar>\<rfloor> = e" using assms(1,2) pos by (intro floor_log2_eq) simp_all
  ultimately show ?thesis using assms(3,4)
    by (simp add: round_to_double_def Let_def max_def)
qed

lemma float_of_large_int: "py_float w (PInt (2 ^ 1024)) = Inl OverflowError"
proof -
  have "round_to_double (2 ^ 1024) = PosInf"
    using round_to_double_overflow [of 1024 "2 ^ 1024"]
    by (simp add: round_half_even_def power_int_add)
  then show ?thesis by (simp add: int_to_float_def)
qed

section \<open>Properties of the price change\<close>

lemma select_dates_today:
  assumes "2 \<le> length dates"
  shows "select_dates ''today'' dates = Inr (dates ! 1, dates ! 0)"
proof -
  have "list_index dates 1 = Inr (dates ! 1)"
    using assms list_index_nat [of 1 dates] by simp
  moreover have "dates \<noteq> []" using assms by auto
  then have "list_index dates 0 = Inr (dates ! 0)" by (rule list_index_0)
  ultimately show ?thesis by (simp add: select_dates_def)
qed

lemma select_dates_week:
  "dates \<noteq> [] \<Longrightarrow> select_dates ''week'' dates = Inr (dates ! min 7 (length dates - 1), dates ! 0)"
  using list_index_clamp [of dates 7] list_index_0 [of dates]
  by (simp add: select_dates_def)

lemma select_dates_other:
  "tf \<noteq> ''today'' \<Longrightarrow> tf \<noteq> ''week'' \<Longrightarrow> dates \<noteq> [] \<Longrightarrow>
   select_dates tf dates = Inr (dates ! min 30 (length dates - 1), dates ! 0)"
  using list_index_clamp [of dates 30] list_index_0 [of dates]
  by (simp add: select_dates_def)


lemma price_change_with_series:
  assumes "requests_get_json w (daily_url w ticker) = Inr data"
    and "getitem data ''Time Series (Daily)'' = Inr (PDict ts)"
  shows "ticker_price_change w ticker tf =
     try_except
       (bindE (select_dates tf (map fst ts)) (\<lambda>(start_date, end_date).
          change_between w (PDict ts) start_date end_date tf))
       (price_change_handler w)"
  using assms getitem_py_in [OF assms(2)]
  by (simp add: ticker_price_change_def ticker_price_change_body_def)

lemma change_between_ok:
  assumes "close_price w ts sd = Inr sp" and "close_price w ts ed = Inr ep"
    and "sp \<noteq> Finite 0"
  shows "change_between w ts sd ed tf =
     Inr (change_result sd ed sp ep (fl_mul (fl_div (fl_sub ep sp) sp) (Finite 100)) tf)"
  using assms by (simp add: change_between_def percent_change_def py_truediv_def)

lemma change_result_eq [simp]:
  "change_result sd ed sp ep c tf = change_result sd' ed' sp' ep' c' tf'
   \<longleftrightarrow> sd = sd' \<and> ed = ed' \<and> sp = sp' \<and> ep = ep' \<and> c = c' \<and> tf = tf'"
  by (auto simp: change_result_def success_result_def)

lemma change_result_neq_error [simp]: "change_result sd ed sp ep c tf \<noteq> error_result m"
  "error_result m \<noteq> change_result sd ed sp ep c tf"
  by (simp_all add: change_result_def success_result_def error_result_def)

lemma error_result_eq [simp]: "error_result m = error_result m' \<longleftrightarrow> m = m'"
  by (simp add: error_result_def)



text \<open>
  C3, as stated, fails: it promises the percentage for every series with at least two
  entries, but line 153 divides by the start close, and a start close of zero raises
  ZeroDivisionError, which the handler of line 170 turns into the error envelope.
\<close>

theorem today_zero_start_close:
  "ticker_price_change
     (world_of_response (daily_series [(''2024-01-10'', 110), (''2024-01-09'', 0)]))
     ''ACME'' ''today''
   = Inr (error_result ''Error calculating price change: float division by zero'')"
  by (simp add: ticker_price_change_def ticker_price_change_body_def world_of_response_def
      daily_series_def select_dates_def list_index_def change_between_def close_price_def
      percent_change_def py_truediv_def price_change_handler_def)

text \<open>
  C3, amended: for a daily series with at least two entries whose entries at index 1 and
  index 0 carry a close that \<^verbatim>\<open>float\<close> accepts, the start close being non-zero,
  \<^verbatim>\<open>ticker_price_change\<close> with timeframe \<^verbatim>\<open>today\<close> takes the date at index 1 as the start
  and the date at index 0 as the end and returns the percent change
  \<open>(end_close - start_close) / start_close * 100\<close> computed in double arithmetic: each of
  the three operations rounds to the nearest double, and the result can be an infinity or
  NaN.
\<close>

theorem today_percent_change:
  assumes "requests_get_json w (daily_url w ticker) = Inr data"
    and "getitem data ''Time Series (Daily)'' = Inr (PDict ts)"
    and "2 \<le> length ts"
    and "close_price w (PDict ts) (map fst ts ! 1) = Inr start_close"
    and "close_price w (PDict ts) (map fst ts ! 0) = Inr end_close"
    and "start_close \<noteq> Finite 0"
  shows "ticker_price_change w ticker ''today'' =
     Inr (change_result (map fst ts ! 1) (map fst ts ! 0) start_close end_close
            (fl_mul (fl_div (fl_sub end_close start_close) start_close) (Finite 100))
            ''today'')"
proof -
  have "select_dates ''today'' (map fst ts) = Inr (map fst ts ! 1, map fst ts ! 0)"
    using assms(3) by (intro select_dates_today) simp
  then show ?thesis
    using assms change_between_ok [OF assms(4,5,6)]
    by (simp add: price_change_with_series [OF assms(1,2)])
qed

text \<open>
  The example of the specification: closes 110 and 100 give 10.0, the quotient
  \<open>10 / 100\<close> being rounded to a double before it is multiplied.
\<close>

theorem today_percent_change_witness:
  "ticker_price_change
     (world_of_response (daily_series [(''2024-01-10'', 110), (''2024-01-09'', 100)]))
     ''ACME'' ''today''
   = Inr (change_result ''2024-01-09'' ''2024-01-10'' (Finite 100) (Finite 110) (Finite 10)
            ''today'')"
  using today_percent_change
    [of "world_of_response (daily_series [(''2024-01-10'', 110), (''2024-01-09'', 100)])"
      "''ACME''" "daily_series [(''2024-01-10'', 110), (''2024-01-09'', 100)]"
      "[(''2024-01-10'', PDict [(''4. close'', PFloat (Finite 110))]),
        (''2024-01-09'', PDict [(''4. close'', PFloat (Finite 100))])]"
      "Finite 100" "Finite 110"]
  by (simp add: world_of_response_def daily_series_def close_price_def
      sub_110_100 div_10_100 mul_tenth_100 del: fl_sub.simps fl_div.simps fl_mul.simps)

text \<open>
  C4: on a non-empty daily series of length \<open>L\<close>, timeframe \<^verbatim>\<open>week\<close> computes the change
  between the date at index \<open>min 7 (L - 1)\<close> and the date at index 0, and timeframe
  \<^verbatim>\<open>month\<close> between index \<open>min 30 (L - 1)\<close> and index 0; the selection of the dates does
  not fail.
\<close>

theorem week_month_start_index:
  assumes "requests_get_json w (daily_url w ticker) = Inr data"
    and "getitem data ''Time Series (Daily)'' = Inr (PDict ts)"
    and "ts \<noteq> []"
  shows "select_dates ''week'' (map fst ts)
           = Inr (map fst ts ! min 7 (length ts - 1), map fst ts ! 0)
     \<and> select_dates ''month'' (map fst ts)
           = Inr (map fst ts ! min 30 (length ts - 1), map fst ts ! 0)
     \<and> ticker_price_change w ticker ''week''
           = try_except
               (change_between w (PDict ts) (map fst ts ! min 7 (length ts - 1))
                  (map fst ts ! 0) ''week'')
               (price_change_handler w)
     \<and> ticker_price_change w ticker ''month''
           = try_except
               (change_between w (PDict ts) (map fst ts ! min 30 (length ts - 1))
                  (map fst ts ! 0) ''month'')
               (price_change_handler w)"
proof -
  have ne: "map fst ts \<noteq> []" using assms(3) by simp
  have week: "select_dates ''week'' (map fst ts)
      = Inr (map fst ts ! min 7 (length ts - 1), map fst ts ! 0)"
    using select_dates_week [OF ne] by simp
  have month: "select_dates ''month'' (map fst ts)
      = Inr (map fst ts ! min 30 (length ts - 1), map fst ts ! 0)"
    using select_dates_other [OF _ _ ne, of "''month''"] by simp
  show ?thesis
    using week month by (simp add: price_change_with_series [OF assms(1,2)])
qed

text \<open>On three entries the start of the week is index 2, the oldest entry.\<close>

theorem week_month_start_index_witness:
  "ticker_price_change
     (world_of_response
        (daily_series [(''2024-01-10'', 110), (''2024-01-09'', 105), (''2024-01-08'', 100)]))
     ''ACME'' ''week''
   = Inr (change_result ''2024-01-08'' ''2024-01-10'' (Finite 100) (Finite 110) (Finite 10)
            ''week'')"
  using week_month_start_index
    [of "world_of_response
           (daily_series [(''2024-01-10'', 110), (''2024-01-09'', 105), (''2024-01-08'', 100)])"
      "''ACME''"
      "daily_series [(''2024-01-10'', 110), (''2024-01-09'', 105), (''2024-01-08'', 100)]"
      "[(''2024-01-10'', PDict [(''4. close'', PFloat (Finite 110))]),
        (''2024-01-09'', PDict [(''4. close'', PFloat (Finite 105))]),
        (''2024-01-08'', PDict [(''4. close'', PFloat (Finite 100))])]"]
  by (simp add: world_of_response_def daily_series_def change_between_def close_price_def
      percent_change_100_110)



text \<open>
  C10: when the daily series has exactly one date, timeframe \<^verbatim>\<open>today\<close> reads index 1 of
  the date list, which raises IndexError, and the tool returns the error envelope whose
  message starts with \<^verbatim>\<open>Error calculating price change:\<close>.
\<close>

theorem today_single_date_error:
  assumes "requests_get_json w (daily_url w ticker) = Inr data"
    and "getitem data ''Time Series (Daily)'' = Inr (PDict [(d, v)])"
  shows "ticker_price_change w ticker ''today'' =
     Inr (error_result (''Error calculating price change: '' @ str_exn w IndexError))"
  by (simp add: price_change_with_series [OF assms] select_dates_def list_index_def
      price_change_handler_def)

theorem today_single_date_error_witness:
  "ticker_price_change (world_of_response (daily_series [(''2024-01-10'', 110)]))
     ''ACME'' ''today''
   = Inr (error_result ''Error calculating price change: list index out of range'')"
  using today_single_date_error
    [of "world_of_response (daily_series [(''2024-01-10'', 110)])" "''ACME''"
      "daily_series [(''2024-01-10'', 110)]" "''2024-01-10''"
      "PDict [(''4. close'', PFloat (Finite 110))]"]
  by (simp add: world_of_response_def daily_series_def)

section \<open>What the operations raise\<close>

text \<open>
  The operations of the language raise instances of \<^verbatim>\<open>Exception\<close> only; an exception
  outside that class can come from a provider call alone.
\<close>

lemma getitem_raises: "getitem d k = Inl e \<Longrightarrow> is_Exception e"
  by (cases "(d, k)" rule: getitem.cases) (auto split: option.splits)




lemma py_len_raises: "py_len d = Inl e \<Longrightarrow> is_Exception e"
  by (cases d rule: py_len.cases) auto


lemma slice3_raises: "slice3 d = Inl e \<Longrightarrow> is_Exception e"
  by (cases d rule: slice3.cases) auto

lemma py_gt_zero_raises: "py_gt_zero v = Inl e \<Longrightarrow> is_Exception e"
  by (cases v rule: py_gt_zero.cases) auto

lemma py_abs_raises: "py_abs v = Inl e \<Longrightarrow> is_Exception e"
  by (cases v rule: py_abs.cases) auto

lemma int_to_float_raises: "int_to_float i = Inl e \<Longrightarrow> is_Exception e"
  by (auto simp: int_to_float_def split: pyfloat.splits)

lemma py_format_2f_raises: "py_format_2f v = Inl e \<Longrightarrow> is_Exception e"
  by (cases v rule: py_format_2f.cases) (auto simp: bindE_eq_Inl dest: int_to_float_raises)








lemma bullet_lines_raises: "bullet_lines w articles = Inl e \<Longrightarrow> is_Exception e"
  by (induction articles arbitrary: e) (auto simp: bindE_eq_Inl dest: getitem_raises)

lemma price_lines_raises: "price_lines w price_data = Inl e \<Longrightarrow> is_Exception e"
  by (auto simp: price_lines_def bindE_eq_Inl split: if_splits
      dest: getitem_raises py_gt_zero_raises py_abs_raises py_format_2f_raises)

lemma news_lines_raises: "news_lines w news_data = Inl e \<Longrightarrow> is_Exception e"
  by (auto simp: news_lines_def bindE_eq_Inl split: if_splits
      dest: getitem_raises py_len_raises slice3_raises bullet_lines_raises)

lemma ticker_analysis_body_raises:
  "ticker_analysis_body w ticker news_data price_data = Inl e \<Longrightarrow> is_Exception e"
  by (auto simp: ticker_analysis_body_def bindE_eq_Inl
      dest: price_lines_raises news_lines_raises)

section \<open>Properties of the analysis\<close>

declare digits.simps [simp del]

lemma format_2f_zero: "format_2f 0 = ''0.00''"
  by (simp add: format_2f_def round_half_even_def digits.simps digit_char_def)

lemma prefix_join: "prefix x (join sep (x # xs))"
  by (cases xs) simp_all

lemma price_lines_zero_today:
  assumes "getitem price_data ''status'' = Inr (PStr ''success'')"
    and "getitem price_data ''data'' = Inr price_info"
    and "getitem price_info ''percent_change'' = Inr (PFloat (Finite 0))"
    and "getitem price_info ''timeframe'' = Inr (PStr ''today'')"
  shows "price_lines w price_data = Inr [''The stock has decreased by 0.00% over today.'']"
  using assms by (simp add: price_lines_def py_str_def format_2f_zero)

lemma price_lines_not_success:
  assumes "getitem price_data ''status'' = Inr status" and "status \<noteq> PStr ''success''"
  shows "price_lines w price_data = Inr []"
  using assms by (simp add: price_lines_def)

lemma news_lines_empty:
  assumes "getitem news_data ''status'' = Inr (PStr ''success'')"
    and "getitem news_data ''data'' = Inr (PList [])"
  shows "news_lines w news_data = Inr []"
  using assms by (simp add: news_lines_def)


lemma ticker_analysis_lines:
  assumes "price_lines w price_data = Inr pl" and "news_lines w news_data = Inr nl"
  shows "ticker_analysis w ticker news_data price_data = Inr (analysis_result (pl @ nl))"
  using assms by (simp add: ticker_analysis_def ticker_analysis_body_def)

lemma ticker_analysis_news_raises:
  assumes "price_lines w price_data = Inr pl" and "news_lines w news_data = Inl e"
  shows "ticker_analysis w ticker news_data price_data
           = Inr (error_result (''Error in analysis: '' @ str_exn w e))"
  using assms news_lines_raises [OF assms(2)]
  by (simp add: ticker_analysis_def ticker_analysis_body_def)

text \<open>
  C5, as stated, fails: the sentence is lost when the news part raises. With a zero
  change over \<^verbatim>\<open>today\<close> and a news success whose article has no \<^verbatim>\<open>title\<close>, line 198 raises
  KeyError and the handler of line 206 returns the error envelope, which holds no
  summary.
\<close>

theorem zero_change_news_without_title:
  "ticker_analysis (world_raising ValueError) ''ACME''
     (success_result (PList [PDict [(''source'', PStr ''wire'')]]))
     (change_result ''2024-01-09'' ''2024-01-10'' (Finite 100) (Finite 100) (Finite 0)
        ''today'')
   = Inr (error_result (''Error in analysis: '' @ [CHR 0x27] @ ''title'' @ [CHR 0x27]))"
  by (simp add: ticker_analysis_def ticker_analysis_body_def price_lines_def news_lines_def
      change_result_def success_result_def py_str_def format_2f_zero world_raising_def)

text \<open>
  C5, amended: when the price data is a success whose percent change is 0.0 and whose
  timeframe is \<^verbatim>\<open>today\<close>, and the news part raises nothing, the summary starts with the
  sentence \<^verbatim>\<open>The stock has decreased by 0.00% over today.\<close> (line 189 tests
  \<^verbatim>\<open>change > 0\<close>, so a change of zero takes the branch of the decrease); when the news
  part raises, the tool returns the error envelope of line 207 instead.
\<close>

theorem zero_change_reported_as_decrease:
  assumes "getitem price_data ''status'' = Inr (PStr ''success'')"
    and "getitem price_data ''data'' = Inr price_info"
    and "getitem price_info ''percent_change'' = Inr (PFloat (Finite 0))"
    and "getitem price_info ''timeframe'' = Inr (PStr ''today'')"
  shows "(\<forall>nl. news_lines w news_data = Inr nl \<longrightarrow>
            ticker_analysis w ticker news_data price_data
              = Inr (analysis_result (''The stock has decreased by 0.00% over today.'' # nl))
            \<and> prefix ''The stock has decreased by 0.00% over today.''
                 (join [CHR 0x0A] (''The stock has decreased by 0.00% over today.'' # nl)))
     \<and> (\<forall>e. news_lines w news_data = Inl e \<longrightarrow>
            ticker_analysis w ticker news_data price_data
              = Inr (error_result (''Error in analysis: '' @ str_exn w e)))"
proof (intro conjI allI impI)
  fix nl assume "news_lines w news_data = Inr nl"
  from ticker_analysis_lines [OF price_lines_zero_today [OF assms] this]
  show "ticker_analysis w ticker news_data price_data
      = Inr (analysis_result (''The stock has decreased by 0.00% over today.'' # nl))"
    by simp
next
  fix nl
  show "prefix ''The stock has decreased by 0.00% over today.''
      (join [CHR 0x0A] (''The stock has decreased by 0.00% over today.'' # nl))"
    by (rule prefix_join)
next
  fix e assume "news_lines w news_data = Inl e"
  from ticker_analysis_news_raises [OF price_lines_zero_today [OF assms] this]
  show "ticker_analysis w ticker news_data price_data
      = Inr (error_result (''Error in analysis: '' @ str_exn w e))" .
qed

theorem zero_change_reported_as_decrease_witness:
  "ticker_analysis (world_raising ValueError) ''ACME'' (error_result ''Error fetching news: error'')
     (change_result ''2024-01-09'' ''2024-01-10'' (Finite 100) (Finite 100) (Finite 0)
        ''today'')
   = Inr (success_result
       (PDict [(''analysis'', PStr ''The stock has decreased by 0.00% over today.'')]))"
proof -
  let ?price = "change_result ''2024-01-09'' ''2024-01-10'' (Finite 100) (Finite 100)
      (Finite 0) ''today''"
  let ?info = "PDict [(''start_date'', PStr ''2024-01-09''), (''end_date'', PStr ''2024-01-10''),
      (''start_price'', PFloat (Finite 100)), (''end_price'', PFloat (Finite 100)),
      (''percent_change'', PFloat (Finite 0)), (''timeframe'', PStr ''today'')]"
  let ?news = "error_result ''Error fetching news: error''"
  have news: "news_lines (world_raising ValueError) ?news = Inr []"
    by (simp add: news_lines_def error_result_def)
  have "getitem ?price ''status'' = Inr (PStr ''success'')"
    and "getitem ?price ''data'' = Inr ?info"
    and "getitem ?info ''percent_change'' = Inr (PFloat (Finite 0))"
    and "getitem ?info ''timeframe'' = Inr (PStr ''today'')"
    by (simp_all add: change_result_def success_result_def)
  from zero_change_reported_as_decrease [OF this, of "world_raising ValueError" ?news "''ACME''"]
    news
  show ?thesis by (simp add: analysis_result_def)
qed

text \<open>
  C7: when the status of the price data is not \<^verbatim>\<open>success\<close> and the news data is a success
  with an empty list of articles, the result is a success whose text is empty: it holds
  neither a price sentence nor the header of the news.
\<close>

theorem error_price_empty_news:
  assumes "getitem price_data ''status'' = Inr status" and "status \<noteq> PStr ''success''"
    and "getitem news_data ''status'' = Inr (PStr ''success'')"
    and "getitem news_data ''data'' = Inr (PList [])"
  shows "ticker_analysis w ticker news_data price_data
           = Inr (success_result (PDict [(''analysis'', PStr [])]))"
  using ticker_analysis_lines [OF price_lines_not_success [OF assms(1,2)]
      news_lines_empty [OF assms(3,4)]]
  by (simp add: analysis_result_def)

theorem error_price_empty_news_witness:
  "ticker_analysis (world_raising ValueError) ''ACME'' (success_result (PList []))
     (error_result ''No historical data available'')
   = Inr (success_result (PDict [(''analysis'', PStr [])]))"
  using error_price_empty_news
    [of "error_result ''No historical data available''" "PStr ''error''"
      "success_result (PList [])" "world_raising ValueError" "''ACME''"]
  by (simp add: success_result_def error_result_def)



section \<open>The envelope of every result\<close>

lemma success_result_ok [simp]: "is_tool_result (success_result d)"
  by (simp add: is_tool_result_def is_success_def is_error_def success_result_def
      insert_commute)

lemma error_result_ok [simp]: "is_tool_result (error_result m)"
  by (simp add: is_tool_result_def is_success_def is_error_def error_result_def
      insert_commute)

lemma candidate_result_envelope:
  "candidate_result symbol info_r = Inr (Some r) \<Longrightarrow> is_tool_result r"
  by (auto simp: candidate_result_def bindE_eq_Inr split: if_splits)

lemma scan_candidates_envelope: "scan_candidates items = Some r \<Longrightarrow> is_tool_result r"
proof (induction items)
  case Nil
  then show ?case by simp
next
  case (Cons item items)
  obtain symbol info_r where item: "item = (symbol, info_r)" by (cases item)
  show ?case
  proof (cases "candidate_result symbol info_r")
    case (Inl e)
    with Cons item show ?thesis by simp
  next
    case (Inr found)
    show ?thesis
    proof (cases found)
      case None
      with Cons item Inr show ?thesis by simp
    next
      case (Some r')
      with Cons.prems item Inr have "r' = r" by simp
      with Some Inr candidate_result_envelope show ?thesis by blast
    qed
  qed
qed

lemma symbol_search_envelope: "symbol_search w query = Inr r \<Longrightarrow> is_tool_result r"
  by (auto simp: symbol_search_def bindE_eq_Inr split: if_splits)

lemma identify_ticker_body_envelope:
  "identify_ticker_body w query = Inr r \<Longrightarrow> is_tool_result r"
  by (auto simp: identify_ticker_body_def Let_def bindE_eq_Inr
      split: option.splits dest: scan_candidates_envelope symbol_search_envelope)

lemma ticker_news_body_envelope: "ticker_news_body w ticker = Inr r \<Longrightarrow> is_tool_result r"
  by (auto simp: ticker_news_body_def bindE_eq_Inr)

lemma ticker_price_body_envelope: "ticker_price_body w ticker = Inr r \<Longrightarrow> is_tool_result r"
  by (auto simp: ticker_price_body_def bindE_eq_Inr split: if_splits)

lemma ticker_price_change_body_envelope:
  "ticker_price_change_body w ticker tf = Inr r \<Longrightarrow> is_tool_result r"
  by (auto simp: ticker_price_change_body_def change_between_def change_result_def
      bindE_eq_Inr split: if_splits)

lemma ticker_analysis_body_envelope:
  "ticker_analysis_body w ticker news_data price_data = Inr r \<Longrightarrow> is_tool_result r"
  by (auto simp: ticker_analysis_body_def analysis_result_def bindE_eq_Inr)

lemma try_except_envelope:
  assumes "\<And>r. body = Inr r \<Longrightarrow> is_tool_result r"
  shows "(\<exists>r. try_except body (\<lambda>e. Inr (error_result (msg e))) = Inr r \<and> is_tool_result r)
     \<or> (\<exists>e. try_except body (\<lambda>e. Inr (error_result (msg e))) = Inl e \<and> \<not> is_Exception e)"
  using assms by (cases body) auto

text \<open>
  C1: whatever a tool returns, for every input and every behaviour of the providers, is
  an envelope of exactly one of the two shapes: status \<^verbatim>\<open>success\<close> with the key
  \<^verbatim>\<open>data\<close> and no \<^verbatim>\<open>error_message\<close>, or status \<^verbatim>\<open>error\<close> with a string under
  \<^verbatim>\<open>error_message\<close> and no \<^verbatim>\<open>data\<close>. A tool returns nothing only when an exception
  outside \<^verbatim>\<open>Exception\<close> leaves it.
\<close>

theorem tool_result_envelope:
  "((\<exists>r. identify_ticker w query = Inr r \<and> is_tool_result r)
      \<or> (\<exists>e. identify_ticker w query = Inl e \<and> \<not> is_Exception e))
   \<and> ((\<exists>r. ticker_news w ticker = Inr r \<and> is_tool_result r)
      \<or> (\<exists>e. ticker_news w ticker = Inl e \<and> \<not> is_Exception e))
   \<and> ((\<exists>r. ticker_price w ticker = Inr r \<and> is_tool_result r)
      \<or> (\<exists>e. ticker_price w ticker = Inl e \<and> \<not> is_Exception e))
   \<and> ((\<exists>r. ticker_price_change w ticker timeframe = Inr r \<and> is_tool_result r)
      \<or> (\<exists>e. ticker_price_change w ticker timeframe = Inl e \<and> \<not> is_Exception e))
   \<and> (\<exists>r. ticker_analysis w ticker news_data price_data = Inr r \<and> is_tool_result r)"
proof (intro conjI)
  show "(\<exists>r. identify_ticker w query = Inr r \<and> is_tool_result r)
      \<or> (\<exists>e. identify_ticker w query = Inl e \<and> \<not> is_Exception e)"
    unfolding identify_ticker_def
    by (rule try_except_envelope) (rule identify_ticker_body_envelope)
  show "(\<exists>r. ticker_news w ticker = Inr r \<and> is_tool_result r)
      \<or> (\<exists>e. ticker_news w ticker = Inl e \<and> \<not> is_Exception e)"
    unfolding ticker_news_def
    by (rule try_except_envelope) (rule ticker_news_body_envelope)
  show "(\<exists>r. ticker_price w ticker = Inr r \<and> is_tool_result r)
      \<or> (\<exists>e. ticker_price w ticker = Inl e \<and> \<not> is_Exception e)"
    unfolding ticker_price_def
    by (rule try_except_envelope) (rule ticker_price_body_envelope)
  show "(\<exists>r. ticker_price_change w ticker timeframe = Inr r \<and> is_tool_result r)
      \<or> (\<exists>e. ticker_price_change w ticker timeframe = Inl e \<and> \<not> is_Exception e)"
    unfolding ticker_price_change_def price_change_handler_def
    by (rule try_except_envelope) (rule ticker_price_change_body_envelope)
  show "\<exists>r. ticker_analysis w ticker news_data price_data = Inr r \<and> is_tool_result r"
  proof (cases "ticker_analysis_body w ticker news_data price_data")
    case (Inl e)
    with ticker_analysis_body_raises [OF Inl] show ?thesis
      by (simp add: ticker_analysis_def)
  next
    case (Inr r)
    with ticker_analysis_body_envelope [OF Inr] show ?thesis
      by (simp add: ticker_analysis_def)
  qed
qed

theorem tool_result_envelope_witness:
  "\<exists>r. ticker_price_change
         (world_of_response (daily_series [(''2024-01-10'', 110), (''2024-01-09'', 100)]))
         ''ACME'' ''today'' = Inr r
       \<and> is_tool_result r"
proof -
  let ?w = "world_of_response (daily_series [(''2024-01-10'', 110), (''2024-01-09'', 100)])"
  have "ticker_price_change ?w ''ACME'' ''today''
      = Inr (change_result ''2024-01-09'' ''2024-01-10'' (Finite 100) (Finite 110) (Finite 10)
               ''today'')"
    by (simp add: ticker_price_change_def ticker_price_change_body_def world_of_response_def
        daily_series_def select_dates_def list_index_def change_between_def close_price_def
        percent_change_100_110)
  with tool_result_envelope [of ?w "''q''" "''ACME''" "''today''" PNone PNone]
  show ?thesis by auto
qed

section \<open>Exceptions at the boundary of a tool\<close>











end
